theory Spec2Isabelle
  imports Main
begin

section \<open>JavaScript strings and numbers, as far as src/index.js uses them\<close>

text \<open>
  A JavaScript string is modelled as a \<^typ>\<open>string\<close>: a list of code units, here the
  256 code units of Latin-1 (U+0000 to U+00FF), which is what \<^typ>\<open>char\<close> holds.
  \<open>length\<close>, indexing and \<open>split("")\<close> count code units, as JavaScript does.

  A thrown exception is a value: every function that can throw returns
  \<open>error + 'a\<close>, with \<open>Inl TypeError\<close> for the only exception the formatting engine
  can throw (reading a property of \<open>null\<close> or \<open>undefined\<close>).
\<close>

datatype error = TypeError

text \<open>
  A JavaScript number, as far as the engine can produce one: \<open>NaN\<close>, the two
  infinities, and an integer-valued double \<open>Num n\<close> (negative zero is \<open>Num 0\<close>: the
  engine only prints numbers and takes remainders, and both treat \<open>-0\<close> as \<open>0\<close>).
\<close>

datatype jsnum = NaN | PosInf | NegInf | Num int

subsection \<open>String.prototype functions\<close>

definition upperChars :: string where
  "upperChars = ''ABCDEFGHIJKLMNOPQRSTUVWXYZ'' @
     [CHR 0xC0, CHR 0xC1, CHR 0xC2, CHR 0xC3, CHR 0xC4, CHR 0xC5, CHR 0xC6, CHR 0xC7,
      CHR 0xC8, CHR 0xC9, CHR 0xCA, CHR 0xCB, CHR 0xCC, CHR 0xCD, CHR 0xCE, CHR 0xCF,
      CHR 0xD0, CHR 0xD1, CHR 0xD2, CHR 0xD3, CHR 0xD4, CHR 0xD5, CHR 0xD6,
      CHR 0xD8, CHR 0xD9, CHR 0xDA, CHR 0xDB, CHR 0xDC, CHR 0xDD, CHR 0xDE]"

definition lowerChars :: string where
  "lowerChars = ''abcdefghijklmnopqrstuvwxyz'' @
     [CHR 0xE0, CHR 0xE1, CHR 0xE2, CHR 0xE3, CHR 0xE4, CHR 0xE5, CHR 0xE6, CHR 0xE7,
      CHR 0xE8, CHR 0xE9, CHR 0xEA, CHR 0xEB, CHR 0xEC, CHR 0xED, CHR 0xEE, CHR 0xEF,
      CHR 0xF0, CHR 0xF1, CHR 0xF2, CHR 0xF3, CHR 0xF4, CHR 0xF5, CHR 0xF6,
      CHR 0xF8, CHR 0xF9, CHR 0xFA, CHR 0xFB, CHR 0xFC, CHR 0xFD, CHR 0xFE]"

text \<open>\<open>toLowerCase\<close> on Latin-1: A-Z and the accented capitals U+00C0-U+00DE (but the
  multiplication sign U+00D7) move to their small letters; every other code unit stays.\<close>

definition toLowerChar :: "char \<Rightarrow> char" where
  "toLowerChar c = (case map_of (zip upperChars lowerChars) c of Some l \<Rightarrow> l | None \<Rightarrow> c)"

definition toLowerCase :: "string \<Rightarrow> string" where
  "toLowerCase s = map toLowerChar s"

definition startsWith :: "string \<Rightarrow> string \<Rightarrow> bool" where
  "startsWith s p = (take (length p) s = p)"

definition endsWith :: "string \<Rightarrow> string \<Rightarrow> bool" where
  "endsWith s p = (drop (length s - length p) s = p \<and> length p \<le> length s)"

text \<open>\<open>s.includes(sub)\<close>: \<open>sub\<close> occurs in \<open>s\<close> as a contiguous substring.\<close>

fun includes_str :: "string \<Rightarrow> string \<Rightarrow> bool" where
  "includes_str [] sub = (sub = [])"
| "includes_str (c # cs) sub = (startsWith (c # cs) sub \<or> includes_str cs sub)"

text \<open>\<open>arr.join(sep)\<close> on an array of strings.\<close>

fun join :: "string \<Rightarrow> string list \<Rightarrow> string" where
  "join sep [] = []"
| "join sep [x] = x"
| "join sep (x # y # ys) = x @ sep @ join sep (y # ys)"

text \<open>\<open>text.split(sep)\<close> for a string separator. The engine only splits on a non-empty
  separator (the default or a truthy configured one); \<open>acc\<close> is the piece being read.\<close>

function split_from :: "string \<Rightarrow> string \<Rightarrow> string \<Rightarrow> string list" where
  "split_from sep acc [] = [acc]"
| "split_from sep acc (c # cs) =
     (if sep \<noteq> [] \<and> startsWith (c # cs) sep
      then acc # split_from sep [] (drop (length sep) (c # cs))
      else split_from sep (acc @ [c]) cs)"
  by pat_completeness auto
termination
  by (relation "measure (\<lambda>(sep, acc, s). length s)") auto

definition split :: "string \<Rightarrow> string \<Rightarrow> string list" where
  "split s sep = split_from sep [] s"

text \<open>\<open>s.replace(search, "")\<close> with a string pattern: the first occurrence is removed.\<close>

fun removeFirst :: "string \<Rightarrow> string \<Rightarrow> string" where
  "removeFirst [] search = []"
| "removeFirst (c # cs) search =
     (if search = [] then c # cs
      else if startsWith (c # cs) search then drop (length search) (c # cs)
      else c # removeFirst cs search)"

text \<open>\<open>s.replace(/m$/, "")\<close>: one trailing \<open>m\<close> is removed.\<close>

definition removeTrailing_m :: "string \<Rightarrow> string" where
  "removeTrailing_m s = (if endsWith s ''m'' then butlast s else s)"

text \<open>\<open>s.replace(/(bg_|\+)/gi, "")\<close>: one left-to-right pass removing every match of
  \<open>bg_\<close> (in any letter case) and every \<open>+\<close>; what a removal joins is not scanned again.\<close>

fun removeBgPlus :: "string \<Rightarrow> string" where
  "removeBgPlus [] = []"
| "removeBgPlus (c # cs) =
     (if toLowerCase (take 3 (c # cs)) = ''bg_'' then removeBgPlus (drop 2 cs)
      else if c = CHR ''+'' then removeBgPlus cs
      else c # removeBgPlus cs)"

text \<open>The replacement patterns of \<open>replace\<close>/\<open>replaceAll\<close> (GetSubstitution) for a string
  pattern, which has no capture groups: \<open>$$\<close> is a dollar, \<open>$&\<close> the matched text,
  \<open>$`\<close> the text before the match, \<open>$'\<close> the text after it; a \<open>$\<close> before anything
  else (a digit, \<open><\<close>) is literal.\<close>

fun getSubstitution :: "string \<Rightarrow> string \<Rightarrow> string \<Rightarrow> string \<Rightarrow> string" where
  "getSubstitution matched preceding following [] = []"
| "getSubstitution matched preceding following [c] = [c]"
| "getSubstitution matched preceding following (c # d # rest) =
     (if c = CHR ''$'' \<and> d = CHR ''$'' then CHR ''$'' # getSubstitution matched preceding following rest
      else if c = CHR ''$'' \<and> d = CHR ''&'' then matched @ getSubstitution matched preceding following rest
      else if c = CHR ''$'' \<and> d = CHR 0x60 then preceding @ getSubstitution matched preceding following rest
      else if c = CHR ''$'' \<and> d = CHR 0x27 then following @ getSubstitution matched preceding following rest
      else c # getSubstitution matched preceding following (d # rest))"

text \<open>\<open>s.replaceAll(search, template)\<close> for a non-empty string \<open>search\<close> (the engine
  tests \<open>if (target)\<close> before each call): the non-overlapping occurrences, left to right,
  each replaced by the template expanded against the original string. \<open>preceding\<close> is the
  part of the original string already passed.\<close>

function replaceAll_from :: "string \<Rightarrow> string \<Rightarrow> string \<Rightarrow> string \<Rightarrow> string" where
  "replaceAll_from search template preceding [] = []"
| "replaceAll_from search template preceding (c # cs) =
     (if search \<noteq> [] \<and> startsWith (c # cs) search
      then getSubstitution search preceding (drop (length search) (c # cs)) template
           @ replaceAll_from search template (preceding @ search) (drop (length search) (c # cs))
      else c # replaceAll_from search template (preceding @ [c]) cs)"
  by pat_completeness auto
termination
  by (relation "measure (\<lambda>(search, template, preceding, s). length s)") auto

definition replaceAll :: "string \<Rightarrow> string \<Rightarrow> string \<Rightarrow> string" where
  "replaceAll s search template = replaceAll_from search template [] s"

subsection \<open>Numbers: parseInt, Number(string), remainder, printing\<close>

definition isDigit :: "char \<Rightarrow> bool" where
  "isDigit c = (c \<in> set ''0123456789'')"

definition isHexDigit :: "char \<Rightarrow> bool" where
  "isHexDigit c = (c \<in> set ''0123456789abcdefABCDEF'')"

text \<open>The white space and line terminators of JavaScript within Latin-1: TAB, LF, VT, FF,
  CR, space and the no-break space U+00A0.\<close>

definition isWhiteSpace :: "char \<Rightarrow> bool" where
  "isWhiteSpace c = (c \<in> set [CHR 0x09, CHR 0x0A, CHR 0x0B, CHR 0x0C, CHR 0x0D, CHR 0x20, CHR 0xA0])"

definition digitVal :: "char \<Rightarrow> nat" where
  "digitVal c =
     (case map_of (zip ''0123456789abcdef'' [0, 1, 2, 3, 4, 5, 6, 7, 8, 9, 10, 11, 12, 13, 14, 15])
             (toLowerChar c) of
        Some v \<Rightarrow> v | None \<Rightarrow> 0)"

definition digitsVal :: "nat \<Rightarrow> string \<Rightarrow> nat" where
  "digitsVal radix ds = foldl (\<lambda>a c. a * radix + digitVal c) 0 ds"

fun bitlen :: "nat \<Rightarrow> nat" where
  "bitlen n = (if n = 0 then 0 else Suc (bitlen (n div 2)))"

declare bitlen.simps [simp del]

text \<open>The double nearest to a natural number of more than 53 bits (ties to even).\<close>

definition round53 :: "nat \<Rightarrow> nat" where
  "round53 v =
     (let e = bitlen v - 53; q = v div 2 ^ e; r = v mod 2 ^ e; h = 2 ^ (e - 1)
      in (if h < r \<or> (r = h \<and> odd q) then q + 1 else q) * 2 ^ e)"

text \<open>The Number value of a mathematical integer of the given sign: exact up to 53
  bits, then rounded to a double, and infinite from \<open>2^1024 - 2^970\<close> on.\<close>

definition toDouble :: "bool \<Rightarrow> nat \<Rightarrow> jsnum" where
  "toDouble neg v =
     (if bitlen v \<le> 53 then (if neg then Num (- int v) else Num (int v))
      else if 1024 < bitlen v then (if neg then NegInf else PosInf)
      else if bitlen v = 1024 then
        (if 2 ^ 1024 - 2 ^ 970 \<le> v then (if neg then NegInf else PosInf)
         else if neg then Num (- int (round53 v)) else Num (int (round53 v)))
      else if neg then Num (- int (round53 v)) else Num (int (round53 v)))"

text \<open>\<open>parseInt(s, radix)\<close> for the radixes the engine passes, 10 and 16: leading white
  space is skipped, then an optional sign, for radix 16 an optional \<open>0x\<close>, then the
  longest run of digits; no digit gives \<open>NaN\<close>. (Beyond 20 significant decimal digits
  ECMAScript lets an implementation approximate the integer before rounding.)\<close>

definition parseInt :: "string \<Rightarrow> nat \<Rightarrow> jsnum" where
  "parseInt s radix =
     (let S = dropWhile isWhiteSpace s;
          neg = startsWith S ''-'';
          S1 = (if startsWith S ''+'' \<or> startsWith S ''-'' then drop 1 S else S);
          S2 = (if radix = 16 \<and> (startsWith S1 ''0x'' \<or> startsWith S1 ''0X'')
                then drop 2 S1 else S1);
          Z = takeWhile (if radix = 16 then isHexDigit else isDigit) S2
      in if Z = [] then NaN else toDouble neg (digitsVal radix Z))"

definition isNaN :: "jsnum \<Rightarrow> bool" where
  "isNaN x = (x = NaN)"

text \<open>\<open>x % 256\<close>: the remainder takes the sign of the dividend; an infinity gives NaN.\<close>

definition rem256 :: "jsnum \<Rightarrow> jsnum" where
  "rem256 x =
     (case x of
        Num n \<Rightarrow> (if n < 0 then Num (- ((- n) mod 256)) else Num (n mod 256))
      | _ \<Rightarrow> NaN)"

fun natToString :: "nat \<Rightarrow> string" where
  "natToString n =
     (if n < 10 then [''0123456789'' ! n]
      else natToString (n div 10) @ [''0123456789'' ! (n mod 10)])"

declare natToString.simps [simp del]

text \<open>\<open>String(x)\<close> of a number. An integer prints in decimal digits; this is JavaScript's
  output for magnitudes below \<open>10^21\<close>, which covers every number the engine prints.\<close>

definition numToString :: "jsnum \<Rightarrow> string" where
  "numToString x =
     (case x of
        NaN \<Rightarrow> ''NaN''
      | PosInf \<Rightarrow> ''Infinity''
      | NegInf \<Rightarrow> ''-Infinity''
      | Num n \<Rightarrow> (if n < 0 then CHR ''-'' # natToString (nat (- n)) else natToString (nat n)))"

text \<open>\<open>Number(s)\<close> of a string, up to what the engine looks at: whether it is NaN, and
  its sign (\<open>isNaN(+code)\<close>, \<open>reg < 0\<close>, \<open>reg > 0\<close>).\<close>

datatype numclass = IsNaN | Negative | Zero | Positive

definition trim :: "string \<Rightarrow> string" where
  "trim s = rev (dropWhile isWhiteSpace (rev (dropWhile isWhiteSpace s)))"

definition allZero :: "string \<Rightarrow> bool" where
  "allZero ds = list_all (\<lambda>c. c = CHR ''0'') ds"

text \<open>\<open>0x\<close>, \<open>0o\<close> and \<open>0b\<close> literals: unsigned, at least one digit.\<close>

definition nonDecimalClass :: "string \<Rightarrow> string \<Rightarrow> numclass" where
  "nonDecimalClass digits ds =
     (if ds = [] \<or> \<not> list_all (\<lambda>c. c \<in> set digits) ds then IsNaN
      else if allZero ds then Zero else Positive)"

text \<open>The exponent part after the mantissa: absent (0), or \<open>e\<close>/\<open>E\<close>, an optional sign
  and at least one digit; anything else is no number.\<close>

definition exponentPart :: "string \<Rightarrow> int option" where
  "exponentPart r =
     (if r = [] then Some 0
      else if startsWith r ''e'' \<or> startsWith r ''E'' then
        (let neg = startsWith (drop 1 r) ''-'';
             ds = (if startsWith (drop 1 r) ''+'' \<or> startsWith (drop 1 r) ''-''
                   then drop 2 r else drop 1 r)
         in if ds = [] \<or> \<not> list_all isDigit ds then None
            else if neg then Some (- int (digitsVal 10 ds)) else Some (int (digitsVal 10 ds)))
      else None)"

text \<open>A non-zero decimal \<open>m * 10^k\<close> is the double zero when it is at most \<open>2^-1075\<close>,
  half the least positive double.\<close>

definition underflows :: "nat \<Rightarrow> int \<Rightarrow> bool" where
  "underflows m k = (if k < 0 then m * 2 ^ 1075 \<le> 10 ^ nat (- k) else False)"

definition decimalClass :: "string \<Rightarrow> numclass" where
  "decimalClass u =
     (let neg = startsWith u ''-'';
          v = (if startsWith u ''+'' \<or> startsWith u ''-'' then drop 1 u else u)
      in if v = ''Infinity'' then (if neg then Negative else Positive)
         else
           let ip = takeWhile isDigit v;
               r1 = dropWhile isDigit v;
               hasDot = startsWith r1 ''.'';
               fp = (if hasDot then takeWhile isDigit (drop 1 r1) else []);
               r2 = (if hasDot then dropWhile isDigit (drop 1 r1) else r1)
           in if ip = [] \<and> fp = [] then IsNaN
              else case exponentPart r2 of
                     None \<Rightarrow> IsNaN
                   | Some e \<Rightarrow>
                       if allZero (ip @ fp) then Zero
                       else if underflows (digitsVal 10 (ip @ fp)) (e - int (length fp)) then Zero
                       else if neg then Negative else Positive)"

definition numberClass :: "string \<Rightarrow> numclass" where
  "numberClass s =
     (let t = trim s in
      if t = [] then Zero
      else if startsWith t ''0x'' \<or> startsWith t ''0X''
        then nonDecimalClass ''0123456789abcdefABCDEF'' (drop 2 t)
      else if startsWith t ''0o'' \<or> startsWith t ''0O''
        then nonDecimalClass ''01234567'' (drop 2 t)
      else if startsWith t ''0b'' \<or> startsWith t ''0B''
        then nonDecimalClass ''01'' (drop 2 t)
      else decimalClass t)"

section \<open>The constants and tables of src/index.js\<close>

definition prefix :: string where
  "prefix = [CHR 0x1B, CHR ''['']"

definition postfix :: string where
  "postfix = ''m''"

definition reset :: string where
  "reset = prefix @ ''0'' @ postfix"

text \<open>\<open>STYLES\<close>, in declaration order: name, on code, off code.\<close>

definition STYLES :: "(string \<times> nat \<times> nat) list" where
  "STYLES =
     [(''bold'', 1, 22), (''dim'', 2, 22), (''italic'', 3, 23), (''cursive'', 3, 23),
      (''underline'', 4, 24), (''blink'', 5, 25), (''inverse'', 7, 27), (''hidden'', 8, 28),
      (''strikethrough'', 9, 29)]"

text \<open>\<open>COLORS\<close>, in declaration order, which is the order of \<open>Object.keys(COLORS)\<close>.\<close>

definition COLORS :: "(string \<times> nat) list" where
  "COLORS =
     [(''black'', 30), (''red'', 31), (''green'', 32), (''yellow'', 33), (''blue'', 34),
      (''magenta'', 35), (''cyan'', 36), (''white'', 37), (''reset'', 0)]"

text \<open>\<open>INDEX = { down: 73, up: 74, off: 75 }\<close>.\<close>

definition INDEX_down :: nat where "INDEX_down = 73"
definition INDEX_up :: nat where "INDEX_up = 74"
definition INDEX_off :: nat where "INDEX_off = 75"

text \<open>
  \<open>STYLES[name]\<close> reads a property of a plain object: an own property gives the style's
  codes; a name that \<open>Object.prototype\<close> defines gives an inherited value, which is truthy
  and has neither \<open>on\<close> nor \<open>off\<close>; any other name gives \<open>undefined\<close>.
\<close>

datatype style_value = Own nat nat | Inherited | Absent

definition objectPrototypeNames :: "string list" where
  "objectPrototypeNames =
     [''constructor'', ''hasOwnProperty'', ''isPrototypeOf'', ''propertyIsEnumerable'',
      ''toLocaleString'', ''toString'', ''valueOf'', ''__proto__'', ''__defineGetter__'',
      ''__defineSetter__'', ''__lookupGetter__'', ''__lookupSetter__'']"

definition STYLES_get :: "string \<Rightarrow> style_value" where
  "STYLES_get name =
     (case map_of STYLES name of
        Some (on, off) \<Rightarrow> Own on off
      | None \<Rightarrow> (if name \<in> set objectPrototypeNames then Inherited else Absent))"

text \<open>An element of the arrays of codes the engine builds (\<open>args\<close>, \<open>ends\<close>, \<open>styles\<close>):
  a string, a number or \<open>undefined\<close>. \<open>join\<close> prints \<open>undefined\<close> as the empty string.\<close>

datatype jsval = Str string | Number jsnum | Undefined

definition valToString :: "jsval \<Rightarrow> string" where
  "valToString v = (case v of Str s \<Rightarrow> s | Number n \<Rightarrow> numToString n | Undefined \<Rightarrow> [])"

definition joinVals :: "string \<Rightarrow> jsval list \<Rightarrow> string" where
  "joinVals sep vs = join sep (map valToString vs)"

definition truthy :: "jsval \<Rightarrow> bool" where
  "truthy v =
     (case v of Str s \<Rightarrow> s \<noteq> [] | Number n \<Rightarrow> n \<noteq> NaN \<and> n \<noteq> Num 0 | Undefined \<Rightarrow> False)"

section \<open>Colour resolution\<close>

text \<open>\<open>inputStr.match(/\d*/gi)\<close>: every match of the pattern, the empty ones included
  (an empty match where no digit stands, and one at the end of the string).\<close>

function matchDigits :: "string \<Rightarrow> string list" where
  "matchDigits [] = [[]]"
| "matchDigits (c # cs) =
     (if isDigit c then (c # takeWhile isDigit cs) # matchDigits (dropWhile isDigit cs)
      else [] # matchDigits cs)"
  by pat_completeness auto
termination
  by (relation "measure length") (auto simp: less_Suc_eq_le length_dropWhile_le)

text \<open>\<open>parseRGB(input)\<close>: \<open>input\<close> is a string or an array of numbers.\<close>

datatype rgb_input = RgbString string | RgbArray "jsnum list"

definition parseRGB :: "rgb_input \<Rightarrow> jsnum list option" where
  "parseRGB input =
     (case input of
        RgbArray arr \<Rightarrow>
          Some (map (\<lambda>val. let num = parseInt (numToString val) 10
                           in if isNaN num then Num 0 else rem256 num)
                    (take 3 arr))
      | RgbString inputStr \<Rightarrow>
          if inputStr = [] then None
          else Some (map (\<lambda>i. if isNaN i then Num 0 else rem256 i)
                      (map (\<lambda>i. parseInt i 10)
                        (take 3 (filter (\<lambda>i. i \<noteq> []) (matchDigits inputStr))))))"

text \<open>\<open>hexToRgb(hex)\<close>; \<open>None\<close> is the \<open>null\<close> it returns for another length.\<close>

definition hexToRgb :: "string \<Rightarrow> jsnum list option" where
  "hexToRgb hex0 =
     (let hex = (if startsWith hex0 ''#'' then drop 1 hex0 else hex0) in
      if length hex = 3 then
        Some [parseInt [hex ! 0, hex ! 0] 16, parseInt [hex ! 1, hex ! 1] 16,
              parseInt [hex ! 2, hex ! 2] 16]
      else if length hex = 6 \<or> length hex = 8 then
        Some [parseInt (take 2 hex) 16, parseInt (take 2 (drop 2 hex)) 16,
              parseInt (take 2 (drop 4 hex)) 16]
      else None)"

text \<open>\<open>getColorFromText(code)\<close> returns \<open>{textCode, options: {rgb}}\<close>, here the pair
  \<open>(textCode, rgb)\<close>. Reading \<open>rgbArray.length\<close> throws when \<open>hexToRgb\<close> or \<open>parseRGB\<close>
  returned \<open>null\<close>.\<close>

definition getColorFromText :: "string \<Rightarrow> error + (string \<times> jsnum list option)" where
  "getColorFromText code =
     (let hex = startsWith code ''#'';
          rgb = (includes_str (toLowerCase code) ''rgb'' \<or>
                 includes_str (toLowerCase code) ''.'' \<or>
                 includes_str (toLowerCase code) '','' \<or>
                 includes_str (toLowerCase code) ''-'' \<or>
                 includes_str (toLowerCase code) ''/'' \<or>
                 includes_str (toLowerCase code) [CHR 0x5C] \<or>
                 numberClass code \<noteq> IsNaN);
          textCode = (if hex \<or> rgb then [] else code);
          rgbArray = (if hex then hexToRgb code
                      else if rgb then parseRGB (RgbString code) else Some [])
      in case rgbArray of
           None \<Rightarrow> Inl TypeError
         | Some arr \<Rightarrow> Inr (textCode, if arr \<noteq> [] then Some arr else None))"

text \<open>The \<open>options\<close> of \<open>getColor\<close>. \<open>bg\<close> and \<open>contrast\<close> are only tested for truth, so
  \<open>undefined\<close> is \<open>False\<close>; \<open>rgb\<close> is an array or \<open>null\<close>. \<open>getColor(text, null)\<close> is
  \<open>getColor text None\<close>.\<close>

record color_options =
  bg :: bool
  contrast :: bool
  rgb :: "jsnum list option"

text \<open>\<open>getColor(text, options)\<close>. The array branch of \<open>parseRGB\<close> never returns \<open>null\<close>;
  the model keeps the exception \<open>colors.length\<close> would throw if it did.\<close>

definition getColor :: "string \<Rightarrow> color_options option \<Rightarrow> error + string" where
  "getColor text options =
     (let bg_flag = (case options of None \<Rightarrow> False | Some opts \<Rightarrow> bg opts);
          contrast_flag = (case options of None \<Rightarrow> False | Some opts \<Rightarrow> contrast opts);
          rgb_opt = (case options of None \<Rightarrow> None | Some opts \<Rightarrow> rgb opts)
      in if rgb_opt = None \<and> length text < 3 then Inr []
         else
           let keyShifting = (if bg_flag then 10 else 0)
                             + (if contrast_flag \<and> rgb_opt = None then 60 else (0::int))
           in case rgb_opt of
                Some arr \<Rightarrow>
                  (case parseRGB (RgbArray arr) of
                     None \<Rightarrow> Inl TypeError
                   | Some colors \<Rightarrow>
                       let args =
                             (if length colors = 1
                              then [Num (38 + keyShifting), Num 5, colors ! 0]
                              else if length colors = 2
                              then [Num (38 + keyShifting), Num 2] @ colors @ [Num 0]
                              else [Num (38 + keyShifting), Num 2] @ take 3 colors)
                       in Inr (prefix @ join '';'' (map numToString args) @ postfix))
              | None \<Rightarrow>
                  let key = (case find (\<lambda>i. i = toLowerCase text) (map fst COLORS) of
                               Some k \<Rightarrow> Some k
                             | None \<Rightarrow>
                                 find (\<lambda>i. includes_str (toLowerCase text) i) (map fst COLORS))
                  in case key of
                       None \<Rightarrow> Inr []
                     | Some k \<Rightarrow>
                         let color = (case map_of COLORS k of
                                        Some c \<Rightarrow> Num (int c + keyShifting)
                                      | None \<Rightarrow> NaN)
                         in Inr (prefix @ numToString color @ postfix))"

section \<open>Index markers\<close>

text \<open>The \<open>reg\<close> argument of \<open>halving\<close>: \<open>undefined\<close>, a string or an (integer) number.\<close>

datatype reg = RegUndefined | RegStr string | RegNum int

definition regTruthy :: "reg \<Rightarrow> bool" where
  "regTruthy r = (case r of RegUndefined \<Rightarrow> False | RegStr s \<Rightarrow> s \<noteq> [] | RegNum n \<Rightarrow> n \<noteq> 0)"

text \<open>The template string \<open>`${reg}`\<close>.\<close>

definition regToString :: "reg \<Rightarrow> string" where
  "regToString r =
     (case r of RegUndefined \<Rightarrow> ''undefined'' | RegStr s \<Rightarrow> s | RegNum n \<Rightarrow> numToString (Num n))"

text \<open>\<open>+reg\<close>, up to NaN and sign.\<close>

definition regClass :: "reg \<Rightarrow> numclass" where
  "regClass r =
     (case r of
        RegUndefined \<Rightarrow> IsNaN
      | RegStr s \<Rightarrow> numberClass s
      | RegNum n \<Rightarrow> (if n < 0 then Negative else if n = 0 then Zero else Positive))"

definition downNames :: "string list" where
  "downNames = [''down'', ''superscript'', ''super'', ''sup'', ''under'', ''bottom'', ''lower'']"

definition upNames :: "string list" where
  "upNames = [''up'', ''subscript'', ''sub'', ''over'', ''top'', ''upper'']"

text \<open>The \<open>styleCodes\<close> of \<open>halving\<close>: the truthy styles, a string read by \<open>parseInt\<close>, the
  NaN results dropped.\<close>

definition styleCodes :: "jsval list \<Rightarrow> jsnum list" where
  "styleCodes styles =
     filter (\<lambda>style. \<not> isNaN style)
       (map (\<lambda>style. case style of Str s \<Rightarrow> parseInt s 10 | Number n \<Rightarrow> n | Undefined \<Rightarrow> NaN)
         (filter (\<lambda>style. truthy style \<and> style \<noteq> Str []) styles))"

definition halving :: "string \<Rightarrow> reg \<Rightarrow> jsval list \<Rightarrow> string" where
  "halving text r styles =
     (if \<not> regTruthy r then text
      else
        let down = (toLowerCase (regToString r) \<in> set downNames \<or> regClass r = Negative);
            up = (toLowerCase (regToString r) \<in> set upNames \<or> regClass r = Positive);
            key = (if down then Some INDEX_down else if up then Some INDEX_up else None)
        in case key of
             None \<Rightarrow> text
           | Some k \<Rightarrow>
               let startCodes = Num (int k) # styleCodes styles;
                   endCodes = Num (int INDEX_off) # styleCodes styles
               in prefix @ join '';'' (map numToString startCodes) @ postfix @ text
                  @ prefix @ join '';'' (map numToString endCodes) @ postfix)"

section \<open>The inline formatting language: parseString\<close>

text \<open>The \<open>separators\<close> argument; a field that is \<open>null\<close> or missing is \<open>None\<close>.\<close>

record separator_options =
  command :: "string option"
  param :: "string option"

text \<open>The codes of a style, as \<open>style.on\<close> and \<open>style.off\<close> read them.\<close>

definition style_on :: "style_value \<Rightarrow> jsval" where
  "style_on st = (case st of Own on off \<Rightarrow> Number (Num (int on)) | _ \<Rightarrow> Undefined)"

definition style_off :: "style_value \<Rightarrow> jsval" where
  "style_off st = (case st of Own on off \<Rightarrow> Number (Num (int off)) | _ \<Rightarrow> Undefined)"

text \<open>\<open>[lastColor].filter((i) => i !== null)\<close>.\<close>

definition lastColorCodes :: "string option \<Rightarrow> jsval list" where
  "lastColorCodes lastColor = (case lastColor of None \<Rightarrow> [] | Some c \<Rightarrow> [Str c])"

text \<open>
  The body of the \<open>forEach\<close> of \<open>parseString\<close>, on one non-empty segment \<open>i\<close>. The state
  is the pair of the two variables the body assigns, \<open>(str, lastColor)\<close>. A colour
  segment with no second field throws: \<open>params[1]\<close> is \<open>undefined\<close> there.
\<close>

definition parseSegment ::
  "string \<Rightarrow> string \<Rightarrow> string \<times> string option \<Rightarrow> string \<Rightarrow> error + (string \<times> string option)" where
  "parseSegment commandSeparator paramSeparator state i =
     (case state of (str, lastColor) \<Rightarrow>
      (case split i paramSeparator of
         [] \<Rightarrow> Inl TypeError
       | p0 # ps \<Rightarrow>
           let key = (case toLowerCase (removeFirst p0 commandSeparator) of
                        [] \<Rightarrow> None | k # _ \<Rightarrow> Some k);
               p1 = (case ps of [] \<Rightarrow> None | x # _ \<Rightarrow> Some x);
               currentText = concat (drop 2 (p0 # ps))
           in if key = Some (CHR ''i'') then
                Inr (str @ halving currentText
                             (case p1 of None \<Rightarrow> RegUndefined | Some r \<Rightarrow> RegStr r)
                             (lastColorCodes lastColor),
                     lastColor)
              else if key = Some (CHR ''s'') then
                (let style = (case p1 of None \<Rightarrow> Absent | Some name \<Rightarrow> STYLES_get name);
                     on = (if style = Absent then []
                           else prefix @ joinVals '';'' (style_on style # lastColorCodes lastColor)
                                @ postfix);
                     off = (if style = Absent then []
                            else prefix @ joinVals '';'' (style_off style # lastColorCodes lastColor)
                                 @ postfix)
                 in Inr (str @ on @ currentText @ off, lastColor))
              else if key = Some (CHR ''c'') then
                (case p1 of
                   None \<Rightarrow> Inl TypeError
                 | Some code \<Rightarrow>
                     let isBackground = startsWith (toLowerCase code) ''bg_'';
                         isNeedContrast = endsWith (toLowerCase code) ''+'';
                         cleanedCode = removeBgPlus (toLowerCase code)
                     in case getColorFromText cleanedCode of
                          Inl e \<Rightarrow> Inl e
                        | Inr (textCode, rgb_value) \<Rightarrow>
                            (case getColor textCode
                                    (Some \<lparr>bg = isBackground, contrast = isNeedContrast,
                                           rgb = rgb_value\<rparr>) of
                               Inl e \<Rightarrow> Inl e
                             | Inr color \<Rightarrow>
                                 Inr (str @ color @ currentText,
                                      Some (removeTrailing_m (removeFirst color prefix)))))
              else Inr (str, lastColor)))"

text \<open>\<open>forEach\<close> over the segments; an exception ends the loop.\<close>

fun forEachSegment ::
  "string \<Rightarrow> string \<Rightarrow> string list \<Rightarrow> string \<times> string option \<Rightarrow> error + (string \<times> string option)" where
  "forEachSegment commandSeparator paramSeparator [] state = Inr state"
| "forEachSegment commandSeparator paramSeparator (i # rest) state =
     (case parseSegment commandSeparator paramSeparator state i of
        Inl e \<Rightarrow> Inl e
      | Inr state' \<Rightarrow> forEachSegment commandSeparator paramSeparator rest state')"

definition commandSeparatorOf :: "separator_options option \<Rightarrow> string" where
  "commandSeparatorOf separators =
     (case separators of
        None \<Rightarrow> ''|''
      | Some s \<Rightarrow> (case command s of None \<Rightarrow> ''|'' | Some c \<Rightarrow> if c \<noteq> [] then c else ''|''))"

definition paramSeparatorOf :: "separator_options option \<Rightarrow> string" where
  "paramSeparatorOf separators =
     (case separators of
        None \<Rightarrow> ''.''
      | Some s \<Rightarrow> (case param s of None \<Rightarrow> ''.'' | Some c \<Rightarrow> if c \<noteq> [] then c else ''.''))"

definition parseString :: "string \<Rightarrow> separator_options option \<Rightarrow> error + string" where
  "parseString text separators =
     (let commandSeparator = commandSeparatorOf separators;
          paramSeparator = paramSeparatorOf separators;
          dataArray = split text commandSeparator
      in case forEachSegment commandSeparator paramSeparator
                (filter (\<lambda>i. i \<noteq> []) dataArray) ([], None) of
           Inl e \<Rightarrow> Inl e
         | Inr (str, lastColor) \<Rightarrow> Inr (str @ reset))"

section \<open>The structured engine: prepareObject and prepareCustomLog\<close>

text \<open>A colour of a style object: a string, an array (of strings and booleans) or an
  object with the fields \<open>data\<close>, \<open>text\<close>, \<open>content\<close> and \<open>contrast\<close>.\<close>

datatype array_item = ItemStr string | ItemBool bool

record color_object =
  obj_data :: "string option"
  obj_text :: "string option"
  obj_content :: "string option"
  obj_contrast :: "bool option"

datatype color_data = ColorStr string | ColorArr "array_item list" | ColorObj color_object

datatype style_data = StyleStr string | StyleArr "string list"

text \<open>The objects of \<open>options.all\<close> and \<open>options.currents\<close> (\<open>prepareObject\<close> reads the
  three style fields, the \<open>currents\<close> loop also \<open>target\<close>) and of \<open>options.notes\<close>. A
  missing field is \<open>None\<close>, so \<open>hasOwnProperty\<close> is \<open>\<noteq> None\<close>.\<close>

record targeted =
  target :: "string option"

record style_object = targeted +
  color :: "color_data option"
  background :: "color_data option"
  style :: "style_data option"

datatype index_data = IndexNum int | IndexArr "int list" | IndexUndefined

record note_object = targeted +
  index :: index_data
  reg :: reg

text \<open>\<open>a || b\<close> on two optional strings.\<close>

definition orElse :: "string option \<Rightarrow> string option \<Rightarrow> string option" where
  "orElse a b = (case a of Some s \<Rightarrow> (if s \<noteq> [] then Some s else b) | None \<Rightarrow> b)"

definition isItemStr :: "array_item \<Rightarrow> bool" where
  "isItemStr i = (case i of ItemStr s \<Rightarrow> True | ItemBool b \<Rightarrow> False)"

text \<open>The inner function \<open>getColorCode\<close> of \<open>prepareObject\<close>. With no string to classify,
  \<open>getColorFromText\<close> throws at \<open>code.startsWith\<close>.\<close>

definition getColorCode :: "color_data \<Rightarrow> error + (string \<times> color_options)" where
  "getColorCode colorData =
     (let colorValue =
            (case colorData of
               ColorStr s \<Rightarrow> Some s
             | ColorArr items \<Rightarrow>
                 (case find isItemStr items of Some (ItemStr s) \<Rightarrow> Some s | _ \<Rightarrow> None)
             | ColorObj ob \<Rightarrow> orElse (obj_data ob) (orElse (obj_text ob) (obj_content ob)));
          contrast_value =
            (case colorData of
               ColorStr s \<Rightarrow> False
             | ColorArr items \<Rightarrow>
                 (case find (\<lambda>i. \<not> isItemStr i) items of Some (ItemBool b) \<Rightarrow> b | _ \<Rightarrow> False)
             | ColorObj ob \<Rightarrow> (case obj_contrast ob of Some b \<Rightarrow> b | None \<Rightarrow> False))
      in case colorValue of
           None \<Rightarrow> Inl TypeError
         | Some v \<Rightarrow>
             (case getColorFromText v of
                Inl e \<Rightarrow> Inl e
              | Inr (textCode, rgb_value) \<Rightarrow>
                  Inr (textCode, \<lparr>bg = False, contrast = contrast_value, rgb = rgb_value\<rparr>)))"

text \<open>The two \<open>if (data.hasOwnProperty(...))\<close> blocks for \<open>color\<close> and \<open>background\<close>:
  the code pushed on \<open>args\<close>, if any.\<close>

definition colorArgs :: "color_data option \<Rightarrow> bool \<Rightarrow> error + jsval list" where
  "colorArgs field is_bg =
     (case field of
        None \<Rightarrow> Inr []
      | Some colorData \<Rightarrow>
          (case getColorCode colorData of
             Inl e \<Rightarrow> Inl e
           | Inr (textCode, options) \<Rightarrow>
               (case getColor textCode (Some (if is_bg then options\<lparr>bg := True\<rparr> else options)) of
                  Inl e \<Rightarrow> Inl e
                | Inr colorCode \<Rightarrow>
                    if colorCode \<noteq> []
                    then Inr [Str (removeTrailing_m (removeFirst colorCode prefix))]
                    else Inr [])))"

text \<open>\<open>styles.forEach\<close>: \<open>STYLES[i].on\<close> throws when \<open>STYLES[i]\<close> is \<open>undefined\<close>.\<close>

fun pushStyles :: "string list \<Rightarrow> jsval list \<times> jsval list \<Rightarrow> error + (jsval list \<times> jsval list)" where
  "pushStyles [] acc = Inr acc"
| "pushStyles (i # rest) (args, ends) =
     (if STYLES_get i = Absent then Inl TypeError
      else pushStyles rest (args @ [style_on (STYLES_get i)], ends @ [style_off (STYLES_get i)]))"

text \<open>\<open>prepareObject(data)\<close> returns \<open>{args, ends}\<close>, here the pair \<open>(args, ends)\<close>.\<close>

definition prepareObject :: "'a style_object_scheme \<Rightarrow> error + (jsval list \<times> jsval list)" where
  "prepareObject data =
     (case colorArgs (color data) False of
        Inl e \<Rightarrow> Inl e
      | Inr args1 \<Rightarrow>
          (case colorArgs (background data) True of
             Inl e \<Rightarrow> Inl e
           | Inr args2 \<Rightarrow>
               (case style data of
                  None \<Rightarrow> Inr (args1 @ args2, [])
                | Some (StyleArr styles) \<Rightarrow> pushStyles styles (args1 @ args2, [])
                | Some (StyleStr s) \<Rightarrow> pushStyles [s] (args1 @ args2, []))))"

text \<open>\<open>options.currents\<close> and \<open>options.notes\<close>: one object or an array of them.\<close>

datatype 'a one_or_many = Single 'a | Many "'a list"

definition toArray :: "'a one_or_many \<Rightarrow> 'a list" where
  "toArray x = (case x of Single a \<Rightarrow> [a] | Many as \<Rightarrow> as)"

record options =
  all :: "style_object option"
  currents :: "style_object one_or_many option"
  notes' :: "note_object one_or_many option"
  separators :: "separator_options option"

text \<open>
  The body of \<open>currents.forEach\<close>. The state is \<open>(textContent, changedTargets,
  targetChanges)\<close>. In \<open>[args, ...globalArgs].join(";")\<close> the array \<open>args\<close> is one element
  of the joined array, so it is printed by its own \<open>toString\<close>, which joins with commas.
\<close>

definition currentStep ::
  "string \<Rightarrow> jsval list \<Rightarrow> string \<times> string list \<times> jsval list list \<Rightarrow> style_object
     \<Rightarrow> error + (string \<times> string list \<times> jsval list list)" where
  "currentStep global globalArgs state current =
     (case state of (textContent, changedTargets, targetChanges) \<Rightarrow>
      (case target current of
         None \<Rightarrow> Inr state
       | Some tgt \<Rightarrow>
           if tgt = [] then Inr state
           else
             (case prepareObject current of
                Inl e \<Rightarrow> Inl e
              | Inr (args, ends) \<Rightarrow>
                  let end = (if color current \<noteq> None \<or> background current \<noteq> None
                             then reset @ global
                             else prefix @ joinVals '';'' ends @ postfix @ global)
                  in Inr (replaceAll textContent tgt
                            (prefix
                             @ join '';'' (joinVals '','' args # map valToString globalArgs)
                             @ postfix @ tgt @ end),
                          changedTargets @ [tgt], targetChanges @ [args]))))"

fun forEachCurrent ::
  "string \<Rightarrow> jsval list \<Rightarrow> style_object list \<Rightarrow> string \<times> string list \<times> jsval list list
     \<Rightarrow> error + (string \<times> string list \<times> jsval list list)" where
  "forEachCurrent global globalArgs [] state = Inr state"
| "forEachCurrent global globalArgs (current # rest) state =
     (case currentStep global globalArgs state current of
        Inl e \<Rightarrow> Inl e
      | Inr state' \<Rightarrow> forEachCurrent global globalArgs rest state')"

text \<open>The body of \<open>notes.forEach\<close>; it assigns \<open>textContent\<close> only. \<open>indexes.includes(num)\<close>
  compares with the position \<open>num\<close>, which an \<open>undefined\<close> index never equals.\<close>

definition noteStep :: "string list \<Rightarrow> jsval list list \<Rightarrow> string \<Rightarrow> note_object \<Rightarrow> string" where
  "noteStep changedTargets targetChanges textContent nt =
     (case target nt of
        None \<Rightarrow> textContent
      | Some tgt \<Rightarrow>
          if tgt = [] then textContent
          else
            let styles = (case find (\<lambda>(i, a). includes_str i tgt)
                                 (zip changedTargets targetChanges) of
                            Some (i, a) \<Rightarrow> a | None \<Rightarrow> []);
                indexes = (case index nt of
                             IndexArr xs \<Rightarrow> xs | IndexNum n \<Rightarrow> [n] | IndexUndefined \<Rightarrow> []);
                current = concat (map (\<lambda>(num, symbol).
                                         if int num \<in> set indexes
                                         then halving [symbol] (reg nt) styles
                                         else [symbol])
                                      (enumerate 0 tgt))
            in replaceAll textContent tgt current)"

text \<open>The test that sends the whole call to \<open>parseString\<close>.\<close>

definition delegates :: "string \<Rightarrow> options option \<Rightarrow> bool" where
  "delegates text opts =
     ((case opts of
         None \<Rightarrow> False
       | Some ops \<Rightarrow>
           (case separators ops of
              None \<Rightarrow> False
            | Some seps \<Rightarrow>
                (case command seps of
                   None \<Rightarrow> False
                 | Some c \<Rightarrow> c \<noteq> [] \<and> includes_str text c)))
      \<or> includes_str text ''|'')"

text \<open>\<open>prepareCustomLog\<close> after that test: the global, targeted and per-character layers.\<close>

definition structured :: "string \<Rightarrow> options option \<Rightarrow> error + string" where
  "structured text opts =
     (case (case opts of
              None \<Rightarrow> Inr ([], [])
            | Some ops \<Rightarrow>
                (case all ops of
                   None \<Rightarrow> Inr ([], [])
                 | Some a \<Rightarrow>
                     (case prepareObject a of
                        Inl e \<Rightarrow> Inl e
                      | Inr (args, ends) \<Rightarrow>
                          Inr (args, prefix @ joinVals '';'' args @ postfix)))) of
        Inl e \<Rightarrow> Inl e
      | Inr (globalArgs, global) \<Rightarrow>
          (case forEachCurrent global globalArgs
                  (case opts of
                     None \<Rightarrow> []
                   | Some ops \<Rightarrow> (case currents ops of None \<Rightarrow> [] | Some cs \<Rightarrow> toArray cs))
                  (text, [], []) of
             Inl e \<Rightarrow> Inl e
           | Inr (textContent, changedTargets, targetChanges) \<Rightarrow>
               Inr (global
                    @ foldl (noteStep changedTargets targetChanges) textContent
                        (case opts of
                           None \<Rightarrow> []
                         | Some ops \<Rightarrow> (case notes' ops of None \<Rightarrow> [] | Some ns \<Rightarrow> toArray ns))
                    @ reset)))"

definition prepareCustomLog :: "string \<Rightarrow> options option \<Rightarrow> error + string" where
  "prepareCustomLog text opts =
     (if delegates text opts
      then parseString text (case opts of None \<Rightarrow> None | Some ops \<Rightarrow> separators ops)
      else structured text opts)"

section \<open>Notions used to state the properties\<close>

text \<open>\<open>options?.separators\<close>.\<close>

definition separatorsOf :: "options option \<Rightarrow> separator_options option" where
  "separatorsOf opts = (case opts of None \<Rightarrow> None | Some ops \<Rightarrow> separators ops)"

text \<open>An index marker as \<open>halving\<close> prints it: the index code, then the style codes.\<close>

definition marker :: "nat \<Rightarrow> jsval list \<Rightarrow> string" where
  "marker code styles =
     prefix @ join '';'' (map numToString (Num (int code) # styleCodes styles)) @ postfix"

text \<open>
  Named-colour lookup in the words of the specification: the palette entry whose name is
  the lowercased token, else the first entry, in declaration order, whose name occurs in
  the lowercased token, else nothing; the entry's code is shifted and wrapped.
\<close>

definition namedColorCode :: "string \<Rightarrow> int \<Rightarrow> string" where
  "namedColorCode text shift =
     (case find (\<lambda>p. fst p = toLowerCase text) COLORS of
        Some p \<Rightarrow> prefix @ numToString (Num (int (snd p) + shift)) @ postfix
      | None \<Rightarrow>
          (case find (\<lambda>p. includes_str (toLowerCase text) (fst p)) COLORS of
             Some p \<Rightarrow> prefix @ numToString (Num (int (snd p) + shift)) @ postfix
           | None \<Rightarrow> []))"





text \<open>
  The maximal runs of digits of a string, left to right, and the first SGR parameter of
  an extended colour (foreground 38, background 48).
\<close>

function digitRuns :: "string \<Rightarrow> string list" where
  "digitRuns [] = []"
| "digitRuns (c # cs) =
     (if isDigit c then (c # takeWhile isDigit cs) # digitRuns (dropWhile isDigit cs)
      else digitRuns cs)"
  by pat_completeness auto
termination
  by (relation "measure length") (auto simp: less_Suc_eq_le length_dropWhile_le)

definition selector :: "bool \<Rightarrow> string" where
  "selector is_bg = (if is_bg then ''48'' else ''38'')"

text \<open>A style object and an options object with no field set, to write examples from.\<close>

definition no_style :: style_object where
  "no_style = \<lparr>target = None, color = None, background = None, style = None\<rparr>"

definition no_options :: options where
  "no_options = \<lparr>all = None, currents = None, notes' = None, separators = None\<rparr>"

text \<open>\<open>{all: {color: "green"}, separators: {command: "-"}}\<close>.\<close>

definition dash_options :: options where
  "dash_options =
     no_options\<lparr>all := Some (no_style\<lparr>color := Some (ColorStr ''green'')\<rparr>),
                separators := Some \<lparr>command = Some ''-'', param = None\<rparr>\<rparr>"

text \<open>\<open>{all: {color: "green"}}\<close>.\<close>

definition green_options :: options where
  "green_options = no_options\<lparr>all := Some (no_style\<lparr>color := Some (ColorStr ''green'')\<rparr>)\<rparr>"

text \<open>\<open>{currents: [{target: "a", color: "red", style: "bold"}]}\<close>.\<close>

definition bold_red_options :: options where
  "bold_red_options =
     no_options\<lparr>currents :=
       Some (Many [no_style\<lparr>target := Some ''a'', color := Some (ColorStr ''red''),
                            style := Some (StyleStr ''bold'')\<rparr>])\<rparr>"

section \<open>Every output ends with the full reset\<close>








section \<open>Index markers: the direction names\<close>

lemma digits_lower: "list_all (\<lambda>c. toLowerChar c = c) ''0123456789''"
  by code_simp

lemma toLowerChar_digit: "isDigit c \<Longrightarrow> toLowerChar c = c"
  using digits_lower unfolding isDigit_def list_all_iff by blast

lemma toLowerCase_digits: "list_all isDigit s \<Longrightarrow> toLowerCase s = s"
  by (induction s) (simp_all add: toLowerCase_def toLowerChar_digit)

lemma digit_nth: "k < 10 \<Longrightarrow> isDigit (''0123456789'' ! k)"
  unfolding isDigit_def by (rule nth_mem) simp

lemma natToString_digits: "list_all isDigit (natToString n)"
proof (induction n rule: natToString.induct)
  case (1 n)
  show ?case
  proof (cases "n < 10")
    case True
    then show ?thesis by (subst natToString.simps) (simp add: digit_nth)
  next
    case False
    then show ?thesis using "1.IH" by (subst natToString.simps) (simp add: digit_nth)
  qed
qed

lemma names_facts:
  "list_all (\<lambda>a. toLowerCase a = a \<and> a \<noteq> [] \<and> numberClass a = IsNaN \<and> \<not> list_all isDigit a)
     (downNames @ upNames)"
  "list_all (\<lambda>a. a \<notin> set downNames) upNames"
  by code_simp+

lemma name_facts:
  assumes "a \<in> set downNames \<or> a \<in> set upNames"
  shows "toLowerCase a = a" "a \<noteq> []" "numberClass a = IsNaN" "\<not> list_all isDigit a"
  using assms names_facts(1) by (auto simp: list_all_iff)

lemma up_not_down: "a \<in> set upNames \<Longrightarrow> a \<notin> set downNames"
  using names_facts(2) by (auto simp: list_all_iff)

lemma halving_down_name:
  "a \<in> set downNames \<Longrightarrow> halving text (RegStr a) styles = marker 73 styles @ text @ marker 75 styles"
  using name_facts [of a]
  by (simp add: halving_def regTruthy_def regToString_def regClass_def marker_def
        INDEX_down_def INDEX_off_def)

lemma halving_up_name:
  "a \<in> set upNames \<Longrightarrow> halving text (RegStr a) styles = marker 74 styles @ text @ marker 75 styles"
  using name_facts [of a] up_not_down [of a]
  by (simp add: halving_def regTruthy_def regToString_def regClass_def marker_def
        INDEX_up_def INDEX_off_def)

lemma natToString_no_name:
  "toLowerCase (natToString n) \<notin> set downNames" "toLowerCase (natToString n) \<notin> set upNames"
  using name_facts(4) [of "natToString n"] natToString_digits [of n]
  by (auto simp: toLowerCase_digits)

lemma halving_positive:
  "0 < n \<Longrightarrow> halving text (RegNum n) styles = marker 74 styles @ text @ marker 75 styles"
  using natToString_no_name [of "nat n"]
  by (simp add: halving_def regTruthy_def regToString_def regClass_def marker_def numToString_def
        INDEX_up_def INDEX_off_def)

lemma halving_negative:
  "n < 0 \<Longrightarrow> halving text (RegNum n) styles = marker 73 styles @ text @ marker 75 styles"
  by (simp add: halving_def regTruthy_def regClass_def marker_def INDEX_down_def INDEX_off_def)

lemma halving_string:
  assumes "toLowerCase a \<notin> set downNames" "toLowerCase a \<notin> set upNames"
  shows "numberClass a = IsNaN \<or> numberClass a = Zero \<Longrightarrow> halving text (RegStr a) styles = text"
    and "numberClass a = Negative \<Longrightarrow>
           halving text (RegStr a) styles = marker 73 styles @ text @ marker 75 styles"
    and "numberClass a = Positive \<Longrightarrow> a \<noteq> [] \<Longrightarrow>
           halving text (RegStr a) styles = marker 74 styles @ text @ marker 75 styles"
  using assms
  by (auto simp: halving_def regTruthy_def regToString_def regClass_def marker_def
        INDEX_up_def INDEX_down_def INDEX_off_def numberClass_def trim_def)

section \<open>Named colours\<close>

lemma find_sat: "find P xs = Some x \<Longrightarrow> P x"
  by (induction xs) (auto split: if_splits)

lemma find_pairs:
  "find (\<lambda>p. P (fst p)) xs =
     (case find P (map fst xs) of
        None \<Rightarrow> None
      | Some k \<Rightarrow> (case map_of xs k of None \<Rightarrow> None | Some c \<Rightarrow> Some (k, c)))"
  by (induction xs) (auto split: option.splits dest: find_sat)

lemma find_key_in_map:
  "find P (map fst xs) = Some k \<Longrightarrow> \<exists>c. map_of xs k = Some c"
  by (induction xs) (auto split: if_splits)

lemma lookup_chain:
  "(case (case find P (map fst xs) of Some k \<Rightarrow> Some k | None \<Rightarrow> find Q (map fst xs)) of
      None \<Rightarrow> d
    | Some k \<Rightarrow> f (case map_of xs k of Some c \<Rightarrow> g c | None \<Rightarrow> h)) =
   (case find (\<lambda>p. P (fst p)) xs of
      Some p \<Rightarrow> f (g (snd p))
    | None \<Rightarrow> (case find (\<lambda>p. Q (fst p)) xs of Some p \<Rightarrow> f (g (snd p)) | None \<Rightarrow> d))"
proof (cases "find P (map fst xs)")
  case None
  show ?thesis
  proof (cases "find Q (map fst xs)")
    case None
    with \<open>find P (map fst xs) = None\<close> show ?thesis by (simp add: find_pairs)
  next
    case (Some k)
    then obtain c where "map_of xs k = Some c" using find_key_in_map by fastforce
    with Some \<open>find P (map fst xs) = None\<close> show ?thesis by (simp add: find_pairs)
  qed
next
  case (Some k)
  then obtain c where "map_of xs k = Some c" using find_key_in_map by fastforce
  with Some show ?thesis by (simp add: find_pairs)
qed

lemma startsWith_length: "startsWith s p \<Longrightarrow> length p \<le> length s"
proof -
  assume "startsWith s p"
  then have "length (take (length p) s) = length p"
    by (simp add: startsWith_def)
  then show ?thesis by simp
qed

lemma includes_str_length: "includes_str s sub \<Longrightarrow> length sub \<le> length s"
proof (induction s)
  case Nil
  then show ?case by simp
next
  case (Cons c cs)
  then show ?case
    using startsWith_length [of "c # cs" sub] by auto
qed

lemma length_toLowerCase: "length (toLowerCase s) = length s"
  by (simp add: toLowerCase_def)

lemma color_names_long: "list_all (\<lambda>p. 3 \<le> length (fst p)) COLORS"
  by code_simp

lemma short_text_no_color:
  assumes "length text < 3"
  shows "find (\<lambda>p. fst p = toLowerCase text) COLORS = None"
    and "find (\<lambda>p. includes_str (toLowerCase text) (fst p)) COLORS = None"
proof -
  have long: "\<And>p. p \<in> set COLORS \<Longrightarrow> 3 \<le> length (fst p)"
    using color_names_long by (simp add: list_all_iff)
  show "find (\<lambda>p. fst p = toLowerCase text) COLORS = None"
    using assms long by (fastforce simp: find_None_iff length_toLowerCase)
  show "find (\<lambda>p. includes_str (toLowerCase text) (fst p)) COLORS = None"
    using assms long includes_str_length [of "toLowerCase text"]
    by (fastforce simp: find_None_iff length_toLowerCase)
qed

lemma getColor_named:
  "getColor text (Some \<lparr>bg = b, contrast = k, rgb = None\<rparr>) =
     Inr (namedColorCode text ((if b then 10 else 0) + (if k then 60 else 0)))"
proof (cases "length text < 3")
  case True
  then show ?thesis
    by (simp add: getColor_def namedColorCode_def short_text_no_color)
next
  case False
  then show ?thesis
    unfolding getColor_def namedColorCode_def Let_def
    using lookup_chain [where P = "\<lambda>i. i = toLowerCase text" and xs = COLORS
            and Q = "\<lambda>i. includes_str (toLowerCase text) i" and d = "Inr []"
            and f = "\<lambda>color. Inr (prefix @ numToString color @ postfix)"
            and g = "\<lambda>c. Num (int c + ((if b then 10 else 0) + (if k then 60 else 0)))"
            and h = NaN]
    by (simp add: option.case_distrib [of Inr] cong: option.case_cong)
qed

lemma getColor_null_options: "getColor text None = Inr (namedColorCode text 0)"
proof (cases "length text < 3")
  case True
  then show ?thesis
    by (simp add: getColor_def namedColorCode_def short_text_no_color)
next
  case False
  then show ?thesis
    unfolding getColor_def namedColorCode_def Let_def
    using lookup_chain [where P = "\<lambda>i. i = toLowerCase text" and xs = COLORS
            and Q = "\<lambda>i. includes_str (toLowerCase text) i" and d = "Inr []"
            and f = "\<lambda>color. Inr (prefix @ numToString color @ postfix)"
            and g = "\<lambda>c. Num (int c + 0)" and h = NaN]
    by (simp add: option.case_distrib [of Inr] cong: option.case_cong)
qed

section \<open>Segments of the inline language\<close>












section \<open>Numeric colour components\<close>

lemma matchDigits_runs: "filter (\<lambda>i. i \<noteq> []) (matchDigits s) = digitRuns s"
  by (induction s rule: matchDigits.induct) auto

lemma takeWhile_digits: "list_all isDigit (takeWhile isDigit cs)"
  by (induction cs) auto

lemma digitRuns_digits: "r \<in> set (digitRuns s) \<Longrightarrow> r \<noteq> [] \<and> list_all isDigit r"
proof (induction s rule: digitRuns.induct)
  case 1
  then show ?case by simp
next
  case (2 c cs)
  show ?case
  proof (cases "isDigit c")
    case True
    with "2.prems" consider "r = c # takeWhile isDigit cs"
      | "r \<in> set (digitRuns (dropWhile isDigit cs))" by auto
    then show ?thesis
    proof cases
      case 1
      then show ?thesis using True takeWhile_digits by simp
    next
      case 2
      then show ?thesis using "2.IH"(1) True by blast
    qed
  next
    case False
    with "2.prems" have "r \<in> set (digitRuns cs)" by simp
    then show ?thesis using "2.IH"(2) False by blast
  qed
qed

lemma digit_not_space: "list_all (\<lambda>c. \<not> isWhiteSpace c \<and> c \<noteq> CHR ''-'' \<and> c \<noteq> CHR ''+'') ''0123456789''"
  by code_simp

lemma digit_plain: "isDigit c \<Longrightarrow> \<not> isWhiteSpace c \<and> c \<noteq> CHR ''-'' \<and> c \<noteq> CHR ''+''"
  using digit_not_space unfolding isDigit_def list_all_iff by blast

lemma takeWhile_all: "list_all P xs \<Longrightarrow> takeWhile P xs = xs"
  by (induction xs) auto

lemma parseInt_digits:
  assumes "r \<noteq> []" "list_all isDigit r"
  shows "parseInt r 10 = toDouble False (digitsVal 10 r)"
proof -
  from assms obtain c cs where r: "r = c # cs" and c: "isDigit c"
    by (cases r) auto
  have "dropWhile isWhiteSpace r = r" using r c digit_plain by simp
  moreover have "\<not> startsWith r ''-''" "\<not> startsWith r ''+''"
    using r c digit_plain by (auto simp: startsWith_def)
  ultimately show ?thesis
    using assms(1) by (simp add: parseInt_def Let_def takeWhile_all [OF assms(2)])
qed

lemma bitlen_le: "v < 2 ^ k \<Longrightarrow> bitlen v \<le> k"
proof (induction k arbitrary: v)
  case 0
  then show ?case by (simp add: bitlen.simps)
next
  case (Suc k)
  then have "v div 2 < 2 ^ k" by auto
  then have "bitlen (v div 2) \<le> k" by (rule Suc.IH)
  then show ?case by (subst bitlen.simps) simp
qed

lemma toDouble_exact: "v < 2 ^ 53 \<Longrightarrow> toDouble False v = Num (int v)"
  using bitlen_le [of v 53] by (simp add: toDouble_def)

lemma rem256_nat: "rem256 (Num (int v)) = Num (int (v mod 256))"
  by (simp add: rem256_def zmod_int)

lemma parseRGB_string:
  "parseRGB (RgbString s) =
     (if s = [] then None
      else Some (map (\<lambda>r. if isNaN (parseInt r 10) then Num 0 else rem256 (parseInt r 10))
                  (take 3 (digitRuns s))))"
  by (simp add: parseRGB_def matchDigits_runs comp_def)

lemma parseRGB_mod256:
  assumes "s \<noteq> []" and "\<forall>r \<in> set (take 3 (digitRuns s)). digitsVal 10 r < 2 ^ 53"
  shows "parseRGB (RgbString s) =
           Some (map (\<lambda>r. Num (int (digitsVal 10 r mod 256))) (take 3 (digitRuns s)))"
proof -
  have "(if isNaN (parseInt r 10) then Num 0 else rem256 (parseInt r 10))
          = Num (int (digitsVal 10 r mod 256))"
    if "r \<in> set (take 3 (digitRuns s))" for r
  proof -
    from that have "r \<in> set (digitRuns s)" by (rule in_set_takeD)
    then have "r \<noteq> []" "list_all isDigit r" using digitRuns_digits by auto
    then have "parseInt r 10 = toDouble False (digitsVal 10 r)" by (rule parseInt_digits)
    also have "\<dots> = Num (int (digitsVal 10 r))"
      using assms(2) that by (simp add: toDouble_exact)
    finally show ?thesis by (simp add: isNaN_def rem256_nat)
  qed
  then show ?thesis using assms(1) by (simp add: parseRGB_string)
qed

lemma digitRuns_map:
  assumes fix_digits: "\<And>c. isDigit c \<Longrightarrow> f c = c"
    and keep_others: "\<And>c. \<not> isDigit c \<Longrightarrow> \<not> isDigit (f c)"
  shows "digitRuns (map f s) = digitRuns s"
proof (induction s rule: digitRuns.induct)
  case 1
  then show ?case by simp
next
  case (2 c cs)
  have same: "isDigit (f x) = isDigit x" for x
  proof (cases "isDigit x")
    case True
    then show ?thesis by (simp add: fix_digits)
  next
    case False
    then show ?thesis by (simp add: keep_others)
  qed
  then have iff: "isDigit \<circ> f = isDigit" by (simp add: fun_eq_iff)
  have "map f (takeWhile isDigit cs) = takeWhile isDigit cs"
  proof (rule map_idI)
    fix x assume "x \<in> set (takeWhile isDigit cs)"
    then have "isDigit x" by (rule set_takeWhileD [THEN conjunct2])
    then show "f x = x" by (rule fix_digits)
  qed
  then have tw: "takeWhile isDigit (map f cs) = takeWhile isDigit cs"
    by (simp only: takeWhile_map iff)
  have dw: "dropWhile isDigit (map f cs) = map f (dropWhile isDigit cs)"
    by (simp only: dropWhile_map iff)
  show ?case
  proof (cases "isDigit c")
    case True
    then have "f c = c" by (rule fix_digits)
    with True "2.IH"(1) tw dw show ?thesis by simp
  next
    case False
    then have "\<not> isDigit (f c)" by (rule keep_others)
    with False "2.IH"(2) show ?thesis by simp
  qed
qed

lemma digitVal_digits:
  "list_all (\<lambda>k. digitVal (''0123456789'' ! k) = k) [0, 1, 2, 3, 4, 5, 6, 7, 8, 9]"
  by code_simp

lemma digitVal_nth: "k < 10 \<Longrightarrow> digitVal (''0123456789'' ! k) = k"
proof -
  assume "k < 10"
  then have "k \<in> set [0, 1, 2, 3, 4, 5, 6, 7, 8, 9::nat]" by simp arith
  with digitVal_digits show ?thesis unfolding list_all_iff by blast
qed

lemma digitsVal_snoc: "digitsVal 10 (xs @ [c]) = digitsVal 10 xs * 10 + digitVal c"
  by (simp add: digitsVal_def)

lemma digitsVal_natToString: "digitsVal 10 (natToString n) = n"
proof (induction n rule: natToString.induct)
  case (1 n)
  show ?case
  proof (cases "n < 10")
    case True
    then have "natToString n = [] @ [''0123456789'' ! n]" by (subst natToString.simps) simp
    then have "digitsVal 10 (natToString n) = digitsVal 10 [] * 10 + digitVal (''0123456789'' ! n)"
      by (simp only: digitsVal_snoc)
    then show ?thesis using True by (simp add: digitVal_nth digitsVal_def)
  next
    case False
    then have "natToString n = natToString (n div 10) @ [''0123456789'' ! (n mod 10)]"
      by (subst natToString.simps) simp
    then have "digitsVal 10 (natToString n) =
        digitsVal 10 (natToString (n div 10)) * 10 + digitVal (''0123456789'' ! (n mod 10))"
      by (simp only: digitsVal_snoc)
    then show ?thesis using False "1.IH" by (simp add: digitVal_nth)
  qed
qed

lemma natToString_nonempty: "natToString n \<noteq> []"
  by (subst natToString.simps) simp

lemma parseInt_natToString: "parseInt (natToString n) 10 = toDouble False n"
  using parseInt_digits [OF natToString_nonempty natToString_digits]
  by (simp add: digitsVal_natToString)

lemma numToString_nat: "numToString (Num (int a)) = natToString a"
  by (simp add: numToString_def)

lemma component_kept:
  assumes "a < 256"
  shows "(let num = parseInt (natToString a) 10
          in if isNaN num then Num 0 else rem256 num) = Num (int a)"
proof -
  have "toDouble False a = Num (int a)" using assms by (simp add: toDouble_exact)
  then show ?thesis
    using assms by (simp add: parseInt_natToString isNaN_def rem256_nat)
qed

lemma numToString_small:
  "numToString (Num 38) = ''38''" "numToString (Num 48) = ''48''" "numToString (Num 5) = ''5''"
  "numToString (Num 2) = ''2''" "numToString (Num 0) = ''0''"
  by (simp_all add: numToString_def natToString.simps)

lemma getColor_indexed:
  "a < 256 \<Longrightarrow>
   getColor text (Some \<lparr>bg = b, contrast = k, rgb = Some [Num (int a)]\<rparr>) =
     Inr (prefix @ join '';'' [selector b, ''5'', natToString a] @ postfix)"
  by (simp add: getColor_def parseRGB_def component_kept selector_def numToString_small
        numToString_nat)

lemma getColor_pair:
  "a < 256 \<Longrightarrow> g < 256 \<Longrightarrow>
   getColor text (Some \<lparr>bg = b, contrast = k, rgb = Some [Num (int a), Num (int g)]\<rparr>) =
     Inr (prefix @ join '';'' [selector b, ''2'', natToString a, natToString g, ''0''] @ postfix)"
  by (simp add: getColor_def parseRGB_def component_kept selector_def numToString_small
        numToString_nat)

lemma getColor_triplet:
  "a < 256 \<Longrightarrow> g < 256 \<Longrightarrow> c < 256 \<Longrightarrow>
   getColor text
     (Some \<lparr>bg = b, contrast = k, rgb = Some [Num (int a), Num (int g), Num (int c)]\<rparr>) =
     Inr (prefix @ join '';'' [selector b, ''2'', natToString a, natToString g, natToString c]
          @ postfix)"
  by (simp add: getColor_def parseRGB_def component_kept selector_def numToString_small
        numToString_nat)

lemma parseRGB_delimiters:
  assumes "\<And>c. isDigit c \<Longrightarrow> f c = c" and "\<And>c. \<not> isDigit c \<Longrightarrow> \<not> isDigit (f c)"
  shows "parseRGB (RgbString (map f s)) = parseRGB (RgbString s)"
  using digitRuns_map [of f s] assms by (simp add: parseRGB_string)

text \<open>A run of 16 digits whose value, \<open>2^53 + 1\<close>, is not a double.\<close>

lemma big_run:
  "digitRuns ''9007199254740993'' = [''9007199254740993'']"
  by (simp add: isDigit_def)

lemma big_val: "digitsVal 10 ''9007199254740993'' = 9007199254740993"
  by (simp add: digitsVal_def digitVal_def toLowerChar_def upperChars_def lowerChars_def)

lemma big_double: "toDouble False 9007199254740993 = Num 9007199254740992"
  by (simp add: toDouble_def bitlen.simps round53_def Let_def)

lemma big_parse: "parseRGB (RgbString ''9007199254740993'') = Some [Num 0]"
  using parseInt_digits [of "''9007199254740993''"]
  by (simp add: parseRGB_string big_run big_val big_double isNaN_def rem256_def isDigit_def)

section \<open>Malformed colour tokens\<close>

lemma hex4_classify: "getColorFromText ''#ffff'' = Inl TypeError"
  by code_simp

lemma hex4_inline: "parseString ''|c.#ffff.X|'' None = Inl TypeError"
  by code_simp

lemma empty_cleaned_inline: "parseString ''|c.bg_.X|'' None = Inl TypeError"
  by code_simp

lemma hex4_delegated: "prepareCustomLog ''|c.#ffff.X|'' None = Inl TypeError"
  by code_simp

lemma hex4_structured:
  "prepareCustomLog ''X''
     (Some (no_options\<lparr>all := Some (no_style\<lparr>color := Some (ColorStr ''#ffff'')\<rparr>)\<rparr>))
   = Inl TypeError"
  by code_simp

text \<open>
  Claim C1. The claim is that the core operations never raise on malformed colour input
  and that such input degrades to an empty colour code. The code raises instead: for a
  hex colour of unsupported length \<open>hexToRgb\<close> returns \<open>null\<close>, for a colour token whose
  cleaned form is empty \<open>parseRGB\<close> returns \<open>null\<close>, and \<open>getColorFromText\<close> then reads
  \<open>rgbArray.length\<close> of that \<open>null\<close>. The TypeError reaches the caller of
  \<open>parseString\<close> and of \<open>prepareCustomLog\<close>, on the delegated and on the structured path.
\<close>

theorem malformed_color_throws:
  "getColorFromText ''#ffff'' = Inl TypeError \<and>
   parseString ''|c.#ffff.X|'' None = Inl TypeError \<and>
   parseString ''|c.bg_.X|'' None = Inl TypeError \<and>
   prepareCustomLog ''|c.#ffff.X|'' None = Inl TypeError \<and>
   prepareCustomLog ''X''
     (Some (no_options\<lparr>all := Some (no_style\<lparr>color := Some (ColorStr ''#ffff'')\<rparr>)\<rparr>))
   = Inl TypeError"
  using hex4_classify hex4_inline empty_cleaned_inline hex4_delegated hex4_structured
  by (intro conjI)

section \<open>Hex colours\<close>

lemma hex3_doubles:
  "length h = 3 \<Longrightarrow>
   hexToRgb (CHR ''#'' # h) = hexToRgb (CHR ''#'' # [h ! 0, h ! 0, h ! 1, h ! 1, h ! 2, h ! 2])"
  by (simp add: hexToRgb_def startsWith_def)

lemma hex8_alpha_dropped:
  "length h = 6 \<Longrightarrow> length alpha = 2 \<Longrightarrow>
   hexToRgb (CHR ''#'' # h @ alpha) = hexToRgb (CHR ''#'' # h)"
  by (simp add: hexToRgb_def startsWith_def)

lemma hex_examples:
  "getColorFromText ''#f00'' = Inr ([], Some [Num 255, Num 0, Num 0])"
  "getColorFromText ''#ff0000'' = Inr ([], Some [Num 255, Num 0, Num 0])"
  "getColorFromText ''#ff0000ff'' = Inr ([], Some [Num 255, Num 0, Num 0])"
  by code_simp+

lemma hex5_null: "hexToRgb ''#ff00f'' = None"
  by code_simp

lemma hex5_classify: "getColorFromText ''#ff00f'' = Inl TypeError"
  by code_simp

lemma hex5_inline: "parseString ''|c.#ff00f.X|'' None = Inl TypeError"
  by code_simp

text \<open>
  Claim C9. The three supported hex forms behave as claimed (\<open>hex3_doubles\<close>,
  \<open>hex8_alpha_dropped\<close>, \<open>hex_examples\<close>). For any other length the claim is an empty
  result with the text passing through uncoloured; the code returns \<open>null\<close> from
  \<open>hexToRgb\<close> and then raises in \<open>getColorFromText\<close>, so no text passes through: with
  the five hex digits \<open>#ff00f\<close> the inline call ends in a TypeError.
\<close>

theorem unsupported_hex_length_throws:
  "hexToRgb ''#ff00f'' = None \<and>
   getColorFromText ''#ff00f'' = Inl TypeError \<and>
   parseString ''|c.#ff00f.X|'' None = Inl TypeError"
  using hex5_null hex5_classify hex5_inline by (intro conjI)

section \<open>The targeted on-sequence\<close>

text \<open>
  Claim C4. The claim is that the on-sequence of a targeted span is one semicolon-joined
  parameter list. In \<open>[args, ...globalArgs].join(";")\<close> the entry's own codes are not
  spread, so they are joined by commas: a red, bold target gets \<open>ESC[31,1m\<close>.
\<close>

theorem targeted_sequence_comma_joined:
  "prepareCustomLog ''ab'' (Some bold_red_options) =
     Inr (prefix @ ''31,1ma'' @ reset @ ''b'' @ reset)"
  by code_simp

section \<open>Unknown style names\<close>

lemma unknown_style_object:
  "prepareObject (no_style\<lparr>style := Some (StyleStr ''blod'')\<rparr>) = Inl TypeError"
  by code_simp

lemma unknown_style_all:
  "prepareCustomLog ''X''
     (Some (no_options\<lparr>all := Some (no_style\<lparr>style := Some (StyleStr ''blod'')\<rparr>)\<rparr>))
   = Inl TypeError"
  by code_simp

lemma unknown_style_inline: "parseString ''|s.blod.X|'' None = Inr (''X'' @ reset)"
  by code_simp

text \<open>
  Claim C5. For a style name that is not in the style table the inline \<open>s\<close> command
  emits no style codes and keeps the payload, as claimed. \<open>prepareObject\<close> reads
  \<open>STYLES[i].on\<close> without the test the inline path makes, and raises; so does
  \<open>prepareCustomLog\<close> with such a style in \<open>options.all\<close>.
\<close>

theorem unknown_style_throws:
  "prepareObject (no_style\<lparr>style := Some (StyleStr ''blod'')\<rparr>) = Inl TypeError \<and>
   prepareCustomLog ''X''
     (Some (no_options\<lparr>all := Some (no_style\<lparr>style := Some (StyleStr ''blod'')\<rparr>)\<rparr>))
   = Inl TypeError \<and>
   parseString ''|s.blod.X|'' None = Inr (''X'' @ reset)"
  using unknown_style_object unknown_style_all unknown_style_inline by (intro conjI)

section \<open>Delegation to the inline parser\<close>

lemma pipe_not_dash:
  "\<not> includes_str ''a|b'' (commandSeparatorOf (separatorsOf (Some dash_options)))"
  by code_simp

lemma dash_delegates:
  "prepareCustomLog ''a|b'' (Some dash_options) =
     parseString ''a|b'' (separatorsOf (Some dash_options))"
  by code_simp

lemma dash_output: "prepareCustomLog ''a|b'' (Some dash_options) = Inr reset"
  by code_simp

lemma dash_structured:
  "structured ''a|b'' (Some dash_options) = Inr (prefix @ ''32ma|b'' @ reset)"
  by code_simp

text \<open>
  Claim C3, as stated, fails: with the command separator \<open>-\<close> configured, the text
  \<open>a|b\<close> does not contain the active separator, yet the call is delegated (the test
  also looks for the default \<open>|\<close>), and the output is the bare reset where the
  structured layers would give the text in green.
\<close>

theorem delegation_counterexample:
  "\<not> includes_str ''a|b'' (commandSeparatorOf (separatorsOf (Some dash_options))) \<and>
   prepareCustomLog ''a|b'' (Some dash_options) =
     parseString ''a|b'' (separatorsOf (Some dash_options)) \<and>
   prepareCustomLog ''a|b'' (Some dash_options) = Inr reset \<and>
   structured ''a|b'' (Some dash_options) = Inr (prefix @ ''32ma|b'' @ reset)"
  using pipe_not_dash dash_delegates dash_output dash_structured by (intro conjI)

lemma delegates_iff:
  "delegates text opts \<longleftrightarrow>
     includes_str text (commandSeparatorOf (separatorsOf opts)) \<or> includes_str text ''|''"
  by (auto simp: delegates_def commandSeparatorOf_def separatorsOf_def split: option.splits)

text \<open>
  Claim C3, amended. \<open>prepareCustomLog\<close> delegates the whole call to \<open>parseString\<close>
  exactly when the text contains the active command separator (the configured one when it
  is a non-empty string, otherwise \<open>|\<close>) or contains the default \<open>|\<close>; its output is
  then \<open>parseString(text, options.separators)\<close>, whatever the structured options are.
  Otherwise the structured layers apply.
\<close>

theorem delegation_rule:
  "(delegates text opts \<longleftrightarrow>
      includes_str text (commandSeparatorOf (separatorsOf opts)) \<or> includes_str text ''|'') \<and>
   prepareCustomLog text opts =
     (if includes_str text (commandSeparatorOf (separatorsOf opts)) \<or> includes_str text ''|''
      then parseString text (separatorsOf opts)
      else structured text opts)"
  using delegates_iff [of "text" opts]
  by (simp add: prepareCustomLog_def separatorsOf_def)

lemma green_examples:
  "includes_str ''|c.red.X|'' ''|''"
  "\<not> includes_str ''X'' ''|''"
  "commandSeparatorOf None = ''|''"
  "separatorsOf (Some green_options) = None"
  "parseString ''|c.red.X|'' None = Inr (prefix @ ''31mX'' @ reset)"
  "structured ''X'' (Some green_options) = Inr (prefix @ ''32mX'' @ reset)"
  by code_simp+

theorem delegation_rule_witness:
  "prepareCustomLog ''|c.red.X|'' (Some green_options) = parseString ''|c.red.X|'' None \<and>
   prepareCustomLog ''|c.red.X|'' (Some green_options) = Inr (prefix @ ''31mX'' @ reset) \<and>
   prepareCustomLog ''X'' (Some green_options) = Inr (prefix @ ''32mX'' @ reset)"
proof -
  have d1: "prepareCustomLog ''|c.red.X|'' (Some green_options) = parseString ''|c.red.X|'' None"
    using delegation_rule [of "''|c.red.X|''" "Some green_options"]
    by (simp only: green_examples simp_thms if_True)
  have d2: "prepareCustomLog ''X'' (Some green_options) = structured ''X'' (Some green_options)"
    using delegation_rule [of "''X''" "Some green_options"]
    by (simp only: green_examples simp_thms if_False)
  show ?thesis using d1 d2 by (simp only: green_examples simp_thms)
qed

section \<open>Segments that are not commands\<close>




















section \<open>Named-colour resolution\<close>

lemma red_lowercase: "toLowerCase ''RED'' = toLowerCase ''red''" "toLowerCase ''Red'' = toLowerCase ''rEd''"
  by code_simp+

lemma red_classified:
  "getColorFromText ''RED'' = Inr (''RED'', None)" "getColorFromText ''red'' = Inr (''red'', None)"
  by code_simp+

text \<open>
  Claim C8. Without an \<open>rgb\<close> option \<open>getColor\<close> is the lookup of the specification:
  the palette name equal to the lowercased token, else the first palette name, in
  declaration order, that occurs in the lowercased token, else the empty string. The
  result depends on the token only through its lowercase form; \<open>RED\<close> and \<open>red\<close>
  are both classified as names, and resolve alike.
\<close>

theorem named_color_lookup:
  "getColor text (Some \<lparr>bg = b, contrast = k, rgb = None\<rparr>) =
     Inr (namedColorCode text ((if b then 10 else 0) + (if k then 60 else 0))) \<and>
   getColor text None = Inr (namedColorCode text 0) \<and>
   (toLowerCase t1 = toLowerCase t2 \<longrightarrow>
      getColor t1 (Some \<lparr>bg = b, contrast = k, rgb = None\<rparr>) =
      getColor t2 (Some \<lparr>bg = b, contrast = k, rgb = None\<rparr>)) \<and>
   getColorFromText ''RED'' = Inr (''RED'', None) \<and>
   getColorFromText ''red'' = Inr (''red'', None) \<and>
   getColor ''RED'' (Some \<lparr>bg = False, contrast = False, rgb = None\<rparr>) =
   getColor ''red'' (Some \<lparr>bg = False, contrast = False, rgb = None\<rparr>)"
proof (intro conjI impI)
  show "getColorFromText ''RED'' = Inr (''RED'', None)"
    and "getColorFromText ''red'' = Inr (''red'', None)"
    by (rule red_classified)+
  show "getColor text (Some \<lparr>bg = b, contrast = k, rgb = None\<rparr>) =
     Inr (namedColorCode text ((if b then 10 else 0) + (if k then 60 else 0)))"
    by (rule getColor_named)
  show "getColor text None = Inr (namedColorCode text 0)"
    by (rule getColor_null_options)
  show "getColor t1 (Some \<lparr>bg = b, contrast = k, rgb = None\<rparr>) =
      getColor t2 (Some \<lparr>bg = b, contrast = k, rgb = None\<rparr>)"
    if "toLowerCase t1 = toLowerCase t2"
    by (simp only: getColor_named namedColorCode_def that)
  show "getColor ''RED'' (Some \<lparr>bg = False, contrast = False, rgb = None\<rparr>) =
      getColor ''red'' (Some \<lparr>bg = False, contrast = False, rgb = None\<rparr>)"
    using red_lowercase(1) by (simp only: getColor_named namedColorCode_def)
qed

lemma named_examples:
  "namedColorCode ''Red'' 0 = prefix @ ''31'' @ postfix"
  "namedColorCode ''darkred'' 70 = prefix @ ''101'' @ postfix"
  "namedColorCode ''xy'' 0 = []"
  by code_simp+

theorem named_color_lookup_witness:
  "toLowerCase ''Red'' = toLowerCase ''rEd'' \<and>
   getColor ''Red'' (Some \<lparr>bg = False, contrast = False, rgb = None\<rparr>) =
   getColor ''rEd'' (Some \<lparr>bg = False, contrast = False, rgb = None\<rparr>) \<and>
   getColor ''Red'' (Some \<lparr>bg = False, contrast = False, rgb = None\<rparr>) = Inr (prefix @ ''31'' @ postfix) \<and>
   getColor ''darkred'' (Some \<lparr>bg = True, contrast = True, rgb = None\<rparr>) = Inr (prefix @ ''101'' @ postfix) \<and>
   getColor ''xy'' None = Inr []"
proof -
  note red = named_color_lookup [of "''Red''" False False "''Red''" "''rEd''"]
  note dark = named_color_lookup [of "''darkred''" True True "''darkred''" "''darkred''"]
  note short = named_color_lookup [of "''xy''" False False "''xy''" "''xy''"]
  have w1: "getColor ''Red'' (Some \<lparr>bg = False, contrast = False, rgb = None\<rparr>) =
      getColor ''rEd'' (Some \<lparr>bg = False, contrast = False, rgb = None\<rparr>)"
    using red red_lowercase(2) by blast
  have w2: "getColor ''Red'' (Some \<lparr>bg = False, contrast = False, rgb = None\<rparr>) =
      Inr (prefix @ ''31'' @ postfix)"
    using red named_examples(1) by simp
  have w3: "getColor ''darkred'' (Some \<lparr>bg = True, contrast = True, rgb = None\<rparr>) =
      Inr (prefix @ ''101'' @ postfix)"
    using dark named_examples(2) by simp
  have w4: "getColor ''xy'' None = Inr []"
    using short named_examples(3) by simp
  show ?thesis using red_lowercase(2) w1 w2 w3 w4 by (intro conjI)
qed

section \<open>Index directions\<close>

text \<open>
  Claim C10. In \<open>halving\<close> the names \<open>superscript\<close>, \<open>super\<close> and \<open>sup\<close> select the
  down code 73, with \<open>down\<close>, \<open>under\<close>, \<open>bottom\<close> and \<open>lower\<close>; the names
  \<open>subscript\<close> and \<open>sub\<close> select the up code 74, with \<open>up\<close>, \<open>over\<close>, \<open>top\<close> and
  \<open>upper\<close>. A number selects by its sign: positive 74, negative 73, zero leaves the
  text as it is. A string that is no such name selects by the sign of its numeric value,
  and leaves the text as it is when that value is zero or not a number.
\<close>

theorem index_direction_names:
  "(a \<in> set [''down'', ''superscript'', ''super'', ''sup'', ''under'', ''bottom'', ''lower''] \<longrightarrow>
      halving text (RegStr a) styles = marker 73 styles @ text @ marker 75 styles) \<and>
   (a \<in> set [''up'', ''subscript'', ''sub'', ''over'', ''top'', ''upper''] \<longrightarrow>
      halving text (RegStr a) styles = marker 74 styles @ text @ marker 75 styles) \<and>
   (0 < n \<longrightarrow> halving text (RegNum n) styles = marker 74 styles @ text @ marker 75 styles) \<and>
   (n < 0 \<longrightarrow> halving text (RegNum n) styles = marker 73 styles @ text @ marker 75 styles) \<and>
   halving text (RegNum 0) styles = text \<and>
   (toLowerCase a \<notin> set downNames \<and> toLowerCase a \<notin> set upNames \<longrightarrow>
      (numberClass a = IsNaN \<or> numberClass a = Zero \<longrightarrow> halving text (RegStr a) styles = text) \<and>
      (numberClass a = Negative \<longrightarrow>
         halving text (RegStr a) styles = marker 73 styles @ text @ marker 75 styles) \<and>
      (numberClass a = Positive \<and> a \<noteq> [] \<longrightarrow>
         halving text (RegStr a) styles = marker 74 styles @ text @ marker 75 styles))"
proof (intro conjI impI)
  assume "a \<in> set [''down'', ''superscript'', ''super'', ''sup'', ''under'', ''bottom'', ''lower'']"
  then have "a \<in> set downNames" by (simp only: downNames_def)
  then show "halving text (RegStr a) styles = marker 73 styles @ text @ marker 75 styles"
    by (rule halving_down_name)
next
  assume "a \<in> set [''up'', ''subscript'', ''sub'', ''over'', ''top'', ''upper'']"
  then have "a \<in> set upNames" by (simp only: upNames_def)
  then show "halving text (RegStr a) styles = marker 74 styles @ text @ marker 75 styles"
    by (rule halving_up_name)
next
  assume "0 < n"
  then show "halving text (RegNum n) styles = marker 74 styles @ text @ marker 75 styles"
    by (rule halving_positive)
next
  assume "n < 0"
  then show "halving text (RegNum n) styles = marker 73 styles @ text @ marker 75 styles"
    by (rule halving_negative)
next
  show "halving text (RegNum 0) styles = text"
    by (simp add: halving_def regTruthy_def)
next
  assume "toLowerCase a \<notin> set downNames \<and> toLowerCase a \<notin> set upNames"
    and "numberClass a = IsNaN \<or> numberClass a = Zero"
  then show "halving text (RegStr a) styles = text"
    using halving_string(1) by blast
next
  assume "toLowerCase a \<notin> set downNames \<and> toLowerCase a \<notin> set upNames"
    and "numberClass a = Negative"
  then show "halving text (RegStr a) styles = marker 73 styles @ text @ marker 75 styles"
    using halving_string(2) by blast
next
  assume "toLowerCase a \<notin> set downNames \<and> toLowerCase a \<notin> set upNames"
    and "numberClass a = Positive \<and> a \<noteq> []"
  then show "halving text (RegStr a) styles = marker 74 styles @ text @ marker 75 styles"
    using halving_string(3) by blast
qed

lemma marker_examples:
  "marker 73 [] = prefix @ ''73m''" "marker 74 [] = prefix @ ''74m''"
  "marker 75 [] = prefix @ ''75m''" "marker 74 [Str ''31''] = prefix @ ''74;31m''"
  "marker 75 [Str ''31''] = prefix @ ''75;31m''"
  "toLowerCase ''sideways'' \<notin> set downNames" "toLowerCase ''sideways'' \<notin> set upNames"
  "numberClass ''sideways'' = IsNaN"
  "toLowerCase ''-2'' \<notin> set downNames" "toLowerCase ''-2'' \<notin> set upNames"
  "numberClass ''-2'' = Negative"
  by code_simp+

theorem index_direction_names_witness:
  "halving ''2'' (RegStr ''sup'') [] = prefix @ ''73m'' @ ''2'' @ prefix @ ''75m'' \<and>
   halving ''2'' (RegStr ''sub'') [] = prefix @ ''74m'' @ ''2'' @ prefix @ ''75m'' \<and>
   halving ''2'' (RegNum 1) [Str ''31''] = prefix @ ''74;31m'' @ ''2'' @ prefix @ ''75;31m'' \<and>
   halving ''2'' (RegNum (- 1)) [] = prefix @ ''73m'' @ ''2'' @ prefix @ ''75m'' \<and>
   halving ''2'' (RegStr ''sideways'') [] = ''2'' \<and>
   halving ''2'' (RegStr ''-2'') [] = prefix @ ''73m'' @ ''2'' @ prefix @ ''75m''"
proof -
  have "halving ''2'' (RegStr ''sup'') [] = marker 73 [] @ ''2'' @ marker 75 []"
    using index_direction_names [of "''sup''" "''2''" "[]"] by simp
  moreover have "halving ''2'' (RegStr ''sub'') [] = marker 74 [] @ ''2'' @ marker 75 []"
    using index_direction_names [of "''sub''" "''2''" "[]"] by simp
  moreover have "halving ''2'' (RegNum 1) [Str ''31''] =
      marker 74 [Str ''31''] @ ''2'' @ marker 75 [Str ''31'']"
    using index_direction_names [of _ "''2''" "[Str ''31'']" 1] by simp
  moreover have "halving ''2'' (RegNum (- 1)) [] = marker 73 [] @ ''2'' @ marker 75 []"
    using index_direction_names [of _ "''2''" "[]" "- 1"] by simp
  moreover have "halving ''2'' (RegStr ''sideways'') [] = ''2''"
    using index_direction_names [of "''sideways''" "''2''" "[]"] marker_examples(6,7,8) by blast
  moreover have "halving ''2'' (RegStr ''-2'') [] = marker 73 [] @ ''2'' @ marker 75 []"
    using index_direction_names [of "''-2''" "''2''" "[]"] marker_examples(9,10,11) by blast
  ultimately show ?thesis by (simp only: marker_examples append_assoc simp_thms)
qed

section \<open>Numeric extraction and the extended colour forms\<close>

lemma toDouble_not_NaN: "toDouble neg v \<noteq> NaN"
  by (simp add: toDouble_def)

lemma parseRGB_rounded:
  "parseRGB (RgbString s) =
     (if s = [] then None
      else Some (map (\<lambda>r. rem256 (toDouble False (digitsVal 10 r))) (take 3 (digitRuns s))))"
proof -
  have "(if isNaN (parseInt r 10) then Num 0 else rem256 (parseInt r 10))
          = rem256 (toDouble False (digitsVal 10 r))"
    if "r \<in> set (take 3 (digitRuns s))" for r
  proof -
    from that have "r \<in> set (digitRuns s)" by (rule in_set_takeD)
    then have "r \<noteq> []" "list_all isDigit r" using digitRuns_digits by auto
    then have "parseInt r 10 = toDouble False (digitsVal 10 r)" by (rule parseInt_digits)
    then show ?thesis by (simp add: isNaN_def toDouble_not_NaN)
  qed
  then show ?thesis by (simp add: parseRGB_string)
qed

text \<open>
  Claim C6, as stated, fails for a digit run that is not a double: \<open>parseInt\<close> rounds
  \<open>9007199254740993\<close> (\<open>2^53 + 1\<close>, residue 1 modulo 256) to \<open>9007199254740992\<close>, and
  the component is 0. It also fails for the empty string, which has no digit run and for
  which \<open>parseRGB\<close> returns \<open>null\<close>, not the empty list.
\<close>

theorem rgb_components_counterexample:
  "digitRuns ''9007199254740993'' = [''9007199254740993''] \<and>
   int (digitsVal 10 ''9007199254740993'' mod 256) = 1 \<and>
   parseRGB (RgbString ''9007199254740993'') = Some [Num 0] \<and>
   parseRGB (RgbString ''9007199254740993'') \<noteq>
     Some [Num (int (digitsVal 10 ''9007199254740993'' mod 256))] \<and>
   digitRuns [] = [] \<and> parseRGB (RgbString []) = None"
  by (simp only: big_run big_parse) (simp add: big_val parseRGB_def)

text \<open>
  Claim C6, amended. On a non-empty string whose first three digit runs are below
  \<open>2^53\<close>, \<open>parseRGB\<close> returns the values of the first three maximal digit runs, left
  to right, each reduced modulo 256; replacing non-digits by other non-digits changes
  nothing. With one, two or three components below 256, \<open>getColor\<close> emits
  \<open>sel;5;idx\<close>, \<open>sel;2;c1;c2;0\<close> or \<open>sel;2;r;g;b\<close>, where \<open>sel\<close> is 38, or 48 for a
  background. Whatever the size of the runs, each component is the remainder modulo 256
  of the double nearest to its run's value (\<open>parseInt\<close> rounds a run of \<open>2^53\<close> or more),
  and the empty string gives \<open>null\<close>.
\<close>

theorem rgb_components:
  "(s \<noteq> [] \<and> (\<forall>r \<in> set (take 3 (digitRuns s)). digitsVal 10 r < 2 ^ 53) \<longrightarrow>
      parseRGB (RgbString s) =
        Some (map (\<lambda>r. Num (int (digitsVal 10 r mod 256))) (take 3 (digitRuns s)))) \<and>
   ((\<forall>c. isDigit c \<longrightarrow> f c = c) \<and> (\<forall>c. \<not> isDigit c \<longrightarrow> \<not> isDigit (f c)) \<longrightarrow>
      parseRGB (RgbString (map f s)) = parseRGB (RgbString s)) \<and>
   (a < 256 \<longrightarrow>
      getColor text (Some \<lparr>bg = b, contrast = k, rgb = Some [Num (int a)]\<rparr>) =
        Inr (prefix @ join '';'' [selector b, ''5'', natToString a] @ postfix)) \<and>
   (a < 256 \<and> g < 256 \<longrightarrow>
      getColor text (Some \<lparr>bg = b, contrast = k, rgb = Some [Num (int a), Num (int g)]\<rparr>) =
        Inr (prefix @ join '';'' [selector b, ''2'', natToString a, natToString g, ''0'']
             @ postfix)) \<and>
   (a < 256 \<and> g < 256 \<and> c < 256 \<longrightarrow>
      getColor text
        (Some \<lparr>bg = b, contrast = k, rgb = Some [Num (int a), Num (int g), Num (int c)]\<rparr>) =
        Inr (prefix @ join '';'' [selector b, ''2'', natToString a, natToString g, natToString c]
             @ postfix)) \<and>
   parseRGB (RgbString s) =
     (if s = [] then None
      else Some (map (\<lambda>r. rem256 (toDouble False (digitsVal 10 r))) (take 3 (digitRuns s))))"
proof (intro conjI impI)
  show "parseRGB (RgbString s) =
     (if s = [] then None
      else Some (map (\<lambda>r. rem256 (toDouble False (digitsVal 10 r))) (take 3 (digitRuns s))))"
    by (rule parseRGB_rounded)
next
  assume "s \<noteq> [] \<and> (\<forall>r \<in> set (take 3 (digitRuns s)). digitsVal 10 r < 2 ^ 53)"
  then show "parseRGB (RgbString s) =
        Some (map (\<lambda>r. Num (int (digitsVal 10 r mod 256))) (take 3 (digitRuns s)))"
    using parseRGB_mod256 by blast
next
  assume "(\<forall>c. isDigit c \<longrightarrow> f c = c) \<and> (\<forall>c. \<not> isDigit c \<longrightarrow> \<not> isDigit (f c))"
  then show "parseRGB (RgbString (map f s)) = parseRGB (RgbString s)"
    using parseRGB_delimiters [of f s] by blast
next
  assume "a < 256"
  then show "getColor text (Some \<lparr>bg = b, contrast = k, rgb = Some [Num (int a)]\<rparr>) =
        Inr (prefix @ join '';'' [selector b, ''5'', natToString a] @ postfix)"
    by (rule getColor_indexed)
next
  assume "a < 256 \<and> g < 256"
  then show "getColor text (Some \<lparr>bg = b, contrast = k, rgb = Some [Num (int a), Num (int g)]\<rparr>) =
        Inr (prefix @ join '';'' [selector b, ''2'', natToString a, natToString g, ''0'']
             @ postfix)"
    using getColor_pair by blast
next
  assume "a < 256 \<and> g < 256 \<and> c < 256"
  then show "getColor text
        (Some \<lparr>bg = b, contrast = k, rgb = Some [Num (int a), Num (int g), Num (int c)]\<rparr>) =
        Inr (prefix @ join '';'' [selector b, ''2'', natToString a, natToString g, natToString c]
             @ postfix)"
    using getColor_triplet by blast
qed

lemma wrap_example:
  "digitRuns ''256,0,0'' = [''256'', ''0'', ''0'']"
  "digitsVal 10 ''256'' = 256" "digitsVal 10 ''0'' = 0"
  "map (\<lambda>c. if c = CHR '','' then CHR ''-'' else c) ''255,0,0'' = ''255-0-0''"
  "selector True = ''48''" "selector False = ''38''"
  "natToString 7 = ''7''" "natToString 255 = ''255''" "natToString 0 = ''0''"
  by (simp_all add: isDigit_def digitsVal_def digitVal_def toLowerChar_def upperChars_def
        lowerChars_def selector_def natToString.simps)

theorem rgb_components_witness:
  "parseRGB (RgbString ''256,0,0'') = Some [Num 0, Num 0, Num 0] \<and>
   parseRGB (RgbString ''255-0-0'') = parseRGB (RgbString ''255,0,0'') \<and>
   getColor [] (Some \<lparr>bg = False, contrast = False, rgb = Some [Num 7]\<rparr>) =
     Inr (prefix @ ''38;5;7'' @ postfix) \<and>
   getColor [] (Some \<lparr>bg = True, contrast = False, rgb = Some [Num 255, Num 0]\<rparr>) =
     Inr (prefix @ ''48;2;255;0;0'' @ postfix) \<and>
   getColor [] (Some \<lparr>bg = False, contrast = True, rgb = Some [Num 255, Num 0, Num 7]\<rparr>) =
     Inr (prefix @ ''38;2;255;0;7'' @ postfix)"
proof -
  let ?dash = "\<lambda>c. if c = CHR '','' then CHR ''-'' else c"
  have p1: "parseRGB (RgbString ''256,0,0'') = Some [Num 0, Num 0, Num 0]"
    using rgb_components [of "''256,0,0''" ?dash 7 "[]" False False 0 0]
    unfolding wrap_example(1) by (simp add: wrap_example)
  have "parseRGB (RgbString (map ?dash ''255,0,0'')) = parseRGB (RgbString ''255,0,0'')"
    using rgb_components [of "''255,0,0''" ?dash 7 "[]" False False 0 0]
    by (simp add: isDigit_def)
  then have p2: "parseRGB (RgbString ''255-0-0'') = parseRGB (RgbString ''255,0,0'')"
    by (simp only: wrap_example(4))
  have p3: "getColor [] (Some \<lparr>bg = False, contrast = False, rgb = Some [Num 7]\<rparr>) =
     Inr (prefix @ ''38;5;7'' @ postfix)"
    using rgb_components [of "''256,0,0''" ?dash 7 "[]" False False 0 0]
    by (simp add: wrap_example)
  have p4: "getColor [] (Some \<lparr>bg = True, contrast = False, rgb = Some [Num 255, Num 0]\<rparr>) =
     Inr (prefix @ ''48;2;255;0;0'' @ postfix)"
    using rgb_components [of "''256,0,0''" ?dash 255 "[]" True False 0 0]
    by (simp add: wrap_example)
  have p5: "getColor [] (Some \<lparr>bg = False, contrast = True, rgb = Some [Num 255, Num 0, Num 7]\<rparr>) =
     Inr (prefix @ ''38;2;255;0;7'' @ postfix)"
    using rgb_components [of "''256,0,0''" ?dash 255 "[]" False True 0 7]
    by (simp add: wrap_example)
  show ?thesis using p1 p2 p3 p4 p5 by (intro conjI)
qed

end
